theory Spec2Isabelle
  imports Main
begin

section \<open>The note model of \<^verbatim>\<open>src/notes/base.ts\<close>\<close>

text \<open>
  TypeScript values are modelled as follows. An optional property (\<^verbatim>\<open>deck?: string\<close>) and a
  nullable one (\<^verbatim>\<open>id: number | null\<close>) are \<open>option\<close>s, \<open>None\<close> being \<^verbatim>\<open>undefined\<close> or
  \<^verbatim>\<open>null\<close>. A string is a \<open>string\<close>, read as its sequence of code units. An object used as
  a dictionary is a map. A thrown exception or a rejected promise is the \<open>Inl\<close> of a sum.
\<close>

subsection \<open>Configuration\<close>

record Config =
  deck :: "string option"
  tags :: "string list option"
  delete :: "bool option"
  enabled :: "bool option"
  cloze :: "bool option"

record ParseConfig = Config +
  id_p :: "int option"

subsection \<open>Parser results\<close>

record ParseLocationMarker =
  offset :: int
  line :: int
  column :: int

record ParseLocation =
  start_l :: ParseLocationMarker
  end_l :: ParseLocationMarker
  source_l :: "string option"

record ParseNoteResult =
  type_r :: string
  config_r :: "string option"
  front_r :: "string option"
  back_r :: "string option"
  location :: ParseLocation

subsection \<open>Entities declared outside this file\<close>

text \<open>
  \<^verbatim>\<open>NoteField\<close> is the enumeration of the two local slots, and \<^verbatim>\<open>NoteFields\<close> assigns each slot
  a string or nothing (the code reads a slot with \<^verbatim>\<open>|| ''\<close>). \<^verbatim>\<open>AnkiFields\<close> is the remote
  model's dictionary from field name to text.
\<close>

datatype NoteField = Frontlike | Backlike

type_synonym NoteFields = "NoteField \<Rightarrow> string option"

type_synonym AnkiFields = "string \<rightharpoonup> string"

text \<open>
  A file of the vault: the code reads its \<^verbatim>\<open>path\<close> and its \<^verbatim>\<open>parent\<close> folder, which stays
  opaque (it is only handed to the folder lookup).
\<close>

record 'd TFile =
  path :: string
  parent :: 'd

record 'd SourceDescriptor =
  file_s :: "'d TFile"

text \<open>
  Modelled from the spec: the declaration of \<^verbatim>\<open>NotesInfoResponseEntity\<close> is missing; a remote
  record has a model name and fields, a dictionary from field name to an object with the
  field's \<^verbatim>\<open>value\<close>.
\<close>

record NoteInfoField =
  value_f :: string

record NotesInfoResponseEntity =
  modelName :: string
  fields_r :: "string \<rightharpoonup> NoteInfoField"

subsection \<open>The note\<close>

text \<open>
  The blueprint of a note is an object of type \<open>'b\<close> whose method \<^verbatim>\<open>renderAsText\<close> is declared
  elsewhere; the operations that render take that method as their first argument.
\<close>

record ('b, 'd, 'm) NoteBase =
  blueprint :: 'b
  id_n :: "int option"
  fields_n :: NoteFields
  source :: "'d SourceDescriptor"
  sourceText :: string
  config :: Config
  medias :: "'m list"
  isCloze :: bool

text \<open>
  The constructor: \<^verbatim>\<open>medias\<close> and \<^verbatim>\<open>isCloze\<close> are optional members of its last argument, with
  the defaults \<^verbatim>\<open>[]\<close> and \<^verbatim>\<open>false\<close>.
\<close>

record 'm NoteOptions =
  config_o :: Config
  medias_o :: "'m list option"
  isCloze_o :: "bool option"

definition new_NoteBase ::
  "'b \<Rightarrow> int option \<Rightarrow> NoteFields \<Rightarrow> 'd SourceDescriptor \<Rightarrow> string \<Rightarrow> 'm NoteOptions
    \<Rightarrow> ('b, 'd, 'm) NoteBase" where
  "new_NoteBase bp i fs src txt opts =
     \<lparr>blueprint = bp, id_n = i, fields_n = fs, source = src, sourceText = txt,
      config = config_o opts,
      medias = (case medias_o opts of None \<Rightarrow> [] | Some ms \<Rightarrow> ms),
      isCloze = (case isCloze_o opts of None \<Rightarrow> False | Some c \<Rightarrow> c)\<rparr>"

datatype error = TypeError | ValidationError | YAMLException

definition renderAsText ::
  "('b \<Rightarrow> ('b, 'd, 'm) NoteBase \<Rightarrow> string) \<Rightarrow> ('b, 'd, 'm) NoteBase \<Rightarrow> string" where
  "renderAsText bp_renderAsText n = bp_renderAsText (blueprint n) n"

text \<open>\<^verbatim>\<open>s || ''\<close> on a string that may be missing: the empty string is falsy as well.\<close>

definition or_empty :: "string option \<Rightarrow> string" where
  "or_empty s = (case s of None \<Rightarrow> [] | Some t \<Rightarrow> (if t = [] then [] else t))"

definition fieldsToAnkiFields :: "('b, 'd, 'm) NoteBase \<Rightarrow> NoteFields \<Rightarrow> AnkiFields" where
  "fieldsToAnkiFields n fs =
     (if isCloze n
      then [''Text'' \<mapsto> or_empty (fs Frontlike), ''Back Extra'' \<mapsto> or_empty (fs Backlike)]
      else [''Front'' \<mapsto> or_empty (fs Frontlike), ''Back'' \<mapsto> or_empty (fs Backlike)])"

definition getEnabled :: "('b, 'd, 'm) NoteBase \<Rightarrow> bool" where
  "getEnabled n = (case enabled (config n) of None \<Rightarrow> True | Some e \<Rightarrow> e)"

definition shouldUpdateFile ::
  "('b \<Rightarrow> ('b, 'd, 'm) NoteBase \<Rightarrow> string) \<Rightarrow> ('b, 'd, 'm) NoteBase \<Rightarrow> bool" where
  "shouldUpdateFile bp_renderAsText n =
     (getEnabled n \<and> renderAsText bp_renderAsText n \<noteq> sourceText n)"

definition getModelName :: "('b, 'd, 'm) NoteBase \<Rightarrow> string" where
  "getModelName n = (if isCloze n then ''Cloze'' else ''Basic'')"

subsection \<open>String and array primitives of the host language\<close>

text \<open>\<^verbatim>\<open>s.split(c)\<close> for a one-character separator: never empty, \<^verbatim>\<open>''.split('/')\<close> is \<^verbatim>\<open>['']\<close>.\<close>

fun split_js :: "char \<Rightarrow> string \<Rightarrow> string list" where
  "split_js c [] = [[]]"
| "split_js c (x # xs) =
     (if x = c then [] # split_js c xs
      else (case split_js c xs of [] \<Rightarrow> [[x]] | w # ws \<Rightarrow> (x # w) # ws))"

text \<open>\<^verbatim>\<open>parts.join(sep)\<close>.\<close>

fun join_js :: "string \<Rightarrow> string list \<Rightarrow> string" where
  "join_js sep [] = []"
| "join_js sep [w] = w"
| "join_js sep (w # v # ws) = w @ sep @ join_js sep (v # ws)"


text \<open>\<^verbatim>\<open>s.replace(/c/g, r)\<close>: every occurrence is replaced.\<close>

fun replace_all :: "char \<Rightarrow> string \<Rightarrow> string \<Rightarrow> string" where
  "replace_all c r [] = []"
| "replace_all c r (x # xs) = (if x = c then r @ replace_all c r xs else x # replace_all c r xs)"

text \<open>\<^verbatim>\<open>xs.indexOf(x)\<close>: the first position of \<open>x\<close>, or \<open>-1\<close>.\<close>

fun indexOf :: "'a list \<Rightarrow> 'a \<Rightarrow> int" where
  "indexOf [] x = - 1"
| "indexOf (y # ys) x =
     (if y = x then 0 else (let i = indexOf ys x in if i < 0 then - 1 else i + 1))"


subsection \<open>Field mapping\<close>

definition normaliseNoteInfoFields ::
  "('b, 'd, 'm) NoteBase \<Rightarrow> NotesInfoResponseEntity \<Rightarrow> error + NoteFields" where
  "normaliseNoteInfoFields n noteInfo =
     (let isCloze' = (modelName noteInfo = ''Cloze'');
          frontlike = (if isCloze' then ''Text'' else ''Front'');
          backlike = (if isCloze' then ''Back Extra'' else ''Back'')
      in case fields_r noteInfo frontlike of
           None \<Rightarrow> Inl TypeError
         | Some f \<Rightarrow>
             (case fields_r noteInfo backlike of
                None \<Rightarrow> Inl TypeError
              | Some b \<Rightarrow>
                  Inr (\<lambda>k. case k of Frontlike \<Rightarrow> Some (value_f f)
                                     | Backlike \<Rightarrow> Some (value_f b))))"

subsection \<open>Settings and the plugin\<close>

text \<open>
  Modelled from the spec: the declarations of the plugin and its settings are missing. Of
  the settings the note reads five: \<^verbatim>\<open>inheritDeck\<close> is compared with both \<^verbatim>\<open>false\<close> and \<^verbatim>\<open>true\<close>,
  so it has a third, unset state; \<^verbatim>\<open>inheritTags\<close> is compared with \<^verbatim>\<open>true\<close> alone. The
  default-deck mappings stay opaque. Of the application the note uses the metadata cache's
  \<^verbatim>\<open>getFileCache\<close>, which may have no entry for a file.
\<close>

record 'maps Settings =
  inheritDeck :: "bool option"
  defaultDeckMaps :: 'maps
  fallbackDeck :: string
  inheritTags :: "bool option"
  tagInAnki :: string

record ('maps, 'd, 'c) AnkiBridgePlugin =
  settings :: "'maps Settings"
  getFileCache :: "'d TFile \<Rightarrow> 'c option"

subsection \<open>Deck resolution\<close>

text \<open>
  \<^verbatim>\<open>getDefaultDeckForFolder\<close> is imported from \<^verbatim>\<open>utils/file\<close>; it is the first argument here. Its
  result and \<^verbatim>\<open>config.deck\<close> are tested for truthiness, which a missing and an empty string
  both fail.
\<close>

definition truthy_string :: "string option \<Rightarrow> bool" where
  "truthy_string s = (case s of None \<Rightarrow> False | Some t \<Rightarrow> t \<noteq> [])"

definition getDeckName ::
  "('d \<Rightarrow> 'maps \<Rightarrow> string option) \<Rightarrow> ('b, 'd, 'm) NoteBase
    \<Rightarrow> ('maps, 'd, 'c) AnkiBridgePlugin \<Rightarrow> string" where
  "getDeckName getDefaultDeckForFolder n plugin =
     (if inheritDeck (settings plugin) = Some False then
        (if truthy_string (deck (config n)) then the (deck (config n))
         else
           (let resolvedDefaultDeck =
                  getDefaultDeckForFolder (parent (file_s (source n)))
                    (defaultDeckMaps (settings plugin))
            in if truthy_string resolvedDefaultDeck then the resolvedDefaultDeck
               else fallbackDeck (settings plugin)))
      else if inheritDeck (settings plugin) = Some True then
        (let deckName = join_js ''::'' (split_js CHR ''/'' (path (file_s (source n))))
         in fallbackDeck (settings plugin) @ ''::'' @ deckName)
      else fallbackDeck (settings plugin))"

subsection \<open>Tag resolution\<close>



subsection \<open>Parsing the configuration block\<close>

text \<open>
  What the YAML loader returns: a loosely typed value. The loader itself is a library
  function and is the first argument of \<open>fromResult\<close>; it returns \<^verbatim>\<open>undefined\<close> for an empty
  document and throws on malformed text.
\<close>

datatype yaml =
    YUndefined
  | YNull
  | YBool bool
  | YNumber int
  | YString string
  | YSeq "yaml list"
  | YMap "(string \<times> yaml) list"

text \<open>Truthiness, as \<^verbatim>\<open>load(configStr) || { id: null }\<close> tests it.\<close>

fun js_truthy :: "yaml \<Rightarrow> bool" where
  "js_truthy YUndefined = False"
| "js_truthy YNull = False"
| "js_truthy (YBool b) = b"
| "js_truthy (YNumber k) = (k \<noteq> 0)"
| "js_truthy (YString s) = (s \<noteq> [])"
| "js_truthy (YSeq xs) = True"
| "js_truthy (YMap kvs) = True"

definition bind_result :: "'e + 'a \<Rightarrow> ('a \<Rightarrow> 'e + 'b) \<Rightarrow> 'e + 'b" where
  "bind_result r f = (case r of Inl e \<Rightarrow> Inl e | Inr v \<Rightarrow> f v)"

text \<open>
  The schema library and the two methods \<^verbatim>\<open>emptyAsUndefined\<close> and \<^verbatim>\<open>nullAsUndefined\<close> that
  \<^verbatim>\<open>utils/yup\<close> adds to it are not part of this file. Each validator below is one field rule
  of \<^verbatim>\<open>ParseConfigSchema\<close>, named after the chain of calls that builds it.
\<close>

text \<open>
  Modelled from the spec: \<^verbatim>\<open>yup.number().nullable().defined().default(null)\<close> is missing; the
  \<^verbatim>\<open>id\<close> is a number or null, and null when absent.
\<close>

fun yup_number_nullable_default_null :: "yaml \<Rightarrow> error + int option" where
  "yup_number_nullable_default_null YUndefined = Inr None"
| "yup_number_nullable_default_null YNull = Inr None"
| "yup_number_nullable_default_null (YNumber k) = Inr (Some k)"
| "yup_number_nullable_default_null _ = Inl ValidationError"

text \<open>
  Modelled from the spec: \<^verbatim>\<open>yup.string().emptyAsUndefined().nullAsUndefined()\<close> is missing; the
  \<^verbatim>\<open>deck\<close> is a string, and unset when it is absent, null or the empty string.
\<close>

fun yup_string_emptyAsUndefined_nullAsUndefined :: "yaml \<Rightarrow> error + string option" where
  "yup_string_emptyAsUndefined_nullAsUndefined YUndefined = Inr None"
| "yup_string_emptyAsUndefined_nullAsUndefined YNull = Inr None"
| "yup_string_emptyAsUndefined_nullAsUndefined (YString s) =
     Inr (if s = [] then None else Some s)"
| "yup_string_emptyAsUndefined_nullAsUndefined _ = Inl ValidationError"

text \<open>
  Modelled from the spec: \<^verbatim>\<open>yup.string()\<close> on the members of \<^verbatim>\<open>tags\<close> is missing; a member is
  a string.
\<close>

fun yup_string :: "yaml \<Rightarrow> error + string" where
  "yup_string (YString s) = Inr s"
| "yup_string _ = Inl ValidationError"

fun yup_strings :: "yaml list \<Rightarrow> error + string list" where
  "yup_strings [] = Inr []"
| "yup_strings (v # vs) =
     bind_result (yup_string v) (\<lambda>s. bind_result (yup_strings vs) (\<lambda>ss. Inr (s # ss)))"

text \<open>
  Modelled from the spec: \<^verbatim>\<open>yup.array().of(yup.string()).notRequired()\<close> is missing; \<^verbatim>\<open>tags\<close> is
  a sequence of strings, and unset when absent, with no empty list forced.
\<close>

fun yup_array_of_string_notRequired :: "yaml \<Rightarrow> error + string list option" where
  "yup_array_of_string_notRequired YUndefined = Inr None"
| "yup_array_of_string_notRequired (YSeq vs) = bind_result (yup_strings vs) (\<lambda>ss. Inr (Some ss))"
| "yup_array_of_string_notRequired _ = Inl ValidationError"

text \<open>
  Modelled from the spec: \<^verbatim>\<open>yup.boolean().nullAsUndefined()\<close> is missing; a flag is a boolean,
  and unset when absent or null, not false.
\<close>

fun yup_boolean_nullAsUndefined :: "yaml \<Rightarrow> error + bool option" where
  "yup_boolean_nullAsUndefined YUndefined = Inr None"
| "yup_boolean_nullAsUndefined YNull = Inr None"
| "yup_boolean_nullAsUndefined (YBool b) = Inr (Some b)"
| "yup_boolean_nullAsUndefined _ = Inl ValidationError"

text \<open>Reading a property of a loaded mapping; a missing key reads as \<^verbatim>\<open>undefined\<close>.\<close>

definition property :: "(string \<times> yaml) list \<Rightarrow> string \<Rightarrow> yaml" where
  "property kvs k = (case map_of kvs k of None \<Rightarrow> YUndefined | Some v \<Rightarrow> v)"

text \<open>
  Modelled from the spec: \<^verbatim>\<open>yup.object(...).validate\<close> is missing; validation fails when the
  loaded value is not a mapping or a field has the wrong shape, and otherwise returns the
  configuration with every field normalised by its rule. The fields and their rules are
  those of \<^verbatim>\<open>ParseConfigSchema\<close>.
\<close>

definition ParseConfigSchema_validate :: "yaml \<Rightarrow> error + ParseConfig" where
  "ParseConfigSchema_validate configObj =
     (case configObj of
        YMap kvs \<Rightarrow>
          bind_result (yup_number_nullable_default_null (property kvs ''id'')) (\<lambda>i.
          bind_result (yup_string_emptyAsUndefined_nullAsUndefined (property kvs ''deck'')) (\<lambda>d.
          bind_result (yup_array_of_string_notRequired (property kvs ''tags'')) (\<lambda>t.
          bind_result (yup_boolean_nullAsUndefined (property kvs ''delete'')) (\<lambda>del.
          bind_result (yup_boolean_nullAsUndefined (property kvs ''enabled'')) (\<lambda>en.
          bind_result (yup_boolean_nullAsUndefined (property kvs ''cloze'')) (\<lambda>cl.
            Inr \<lparr>deck = d, tags = t, delete = del, enabled = en, cloze = cl, id_p = i\<rparr>))))))
      | _ \<Rightarrow> Inl ValidationError)"

text \<open>
  \<^verbatim>\<open>ParseConfig.fromResult\<close>. The promise it returns is the sum: rejected with the loader's or
  the validator's error, or fulfilled with the validated configuration.
\<close>

definition fromResult :: "(string \<Rightarrow> error + yaml) \<Rightarrow> ParseNoteResult \<Rightarrow> error + ParseConfig" where
  "fromResult load result =
     (let configStr = or_empty (config_r result)
      in bind_result (load configStr) (\<lambda>loaded.
           let configObj = (if js_truthy loaded then loaded else YMap [(''id'', YNull)])
           in ParseConfigSchema_validate configObj))"

subsection \<open>Vocabulary of the properties\<close>

text \<open>
  The field names a remote record is expected to carry for its model, and the record's
  dictionary from field name to field text.
\<close>

definition expectedFieldNames :: "NotesInfoResponseEntity \<Rightarrow> string set" where
  "expectedFieldNames noteInfo =
     (if modelName noteInfo = ''Cloze'' then {''Text'', ''Back Extra''} else {''Front'', ''Back''})"

definition noteInfoValues :: "NotesInfoResponseEntity \<Rightarrow> AnkiFields" where
  "noteInfoValues noteInfo = map_option value_f \<circ> fields_r noteInfo"

text \<open>
  De-duplication that preserves first-seen order: walking the list from the left, an element
  is kept when it has not been seen before.
\<close>

fun firstSeen_from :: "'a list \<Rightarrow> 'a list \<Rightarrow> 'a list" where
  "firstSeen_from seen [] = []"
| "firstSeen_from seen (x # xs) =
     (if x \<in> set seen then firstSeen_from seen xs else x # firstSeen_from (seen @ [x]) xs)"

definition firstSeen :: "'a list \<Rightarrow> 'a list" where
  "firstSeen xs = firstSeen_from [] xs"




subsection \<open>Sample data\<close>

text \<open>
  A note of the file \<^verbatim>\<open>Biology/Cells.md\<close> with the blueprint \<open>()\<close>, whose rendering is the
  question and the answer on two lines; folders are named by their paths.
\<close>

definition sample_source :: "string SourceDescriptor" where
  "sample_source = \<lparr>file_s = \<lparr>path = ''Biology/Cells.md'', parent = ''Biology''\<rparr>\<rparr>"

definition sample_config :: Config where
  "sample_config = \<lparr>deck = None, tags = None, delete = None, enabled = None, cloze = None\<rparr>"

definition sample_fields :: NoteFields where
  "sample_fields k = (case k of Frontlike \<Rightarrow> Some ''What is a cell?'' | Backlike \<Rightarrow> None)"

definition sample_render :: "unit \<Rightarrow> (unit, string, unit) NoteBase \<Rightarrow> string" where
  "sample_render b n =
     or_empty (fields_n n Frontlike) @ [CHR 0x0A] @ or_empty (fields_n n Backlike)"

definition sample_note :: "(unit, string, unit) NoteBase" where
  "sample_note =
     new_NoteBase () None sample_fields sample_source ''What is a cell?''
       \<lparr>config_o = sample_config, medias_o = None, isCloze_o = None\<rparr>"

definition sample_basic_info :: NotesInfoResponseEntity where
  "sample_basic_info =
     \<lparr>modelName = ''Basic'',
      fields_r = [''Front'' \<mapsto> \<lparr>value_f = ''What is a cell?''\<rparr>,
                  ''Back'' \<mapsto> \<lparr>value_f = []\<rparr>]\<rparr>"

definition sample_cloze_info :: NotesInfoResponseEntity where
  "sample_cloze_info =
     \<lparr>modelName = ''Cloze'',
      fields_r = [''Text'' \<mapsto> \<lparr>value_f = ''A {{c1::cell}} divides''\<rparr>,
                  ''Back Extra'' \<mapsto> \<lparr>value_f = ''mitosis''\<rparr>]\<rparr>"

definition sample_cloze_fields :: NoteFields where
  "sample_cloze_fields k =
     (case k of Frontlike \<Rightarrow> Some ''A {{c1::cell}} divides'' | Backlike \<Rightarrow> Some ''mitosis'')"

definition sample_frontless_info :: NotesInfoResponseEntity where
  "sample_frontless_info =
     \<lparr>modelName = ''Basic'', fields_r = [''Back'' \<mapsto> \<lparr>value_f = ''mitosis''\<rparr>]\<rparr>"

text \<open>
  Settings that mirror folders and inherit tags, a plugin whose metadata cache knows the tags
  of \<^verbatim>\<open>Biology/Cells.md\<close> alone, a folder lookup that reads an association list, and a tag
  collector that returns the cached list.
\<close>

definition sample_settings :: "(string \<times> string) list Settings" where
  "sample_settings =
     \<lparr>inheritDeck = Some True, defaultDeckMaps = [(''Biology'', ''Science'')],
      fallbackDeck = ''MyDeck'', inheritTags = Some True, tagInAnki = ''obsidian''\<rparr>"

definition sample_plugin :: "((string \<times> string) list, string, string list) AnkiBridgePlugin" where
  "sample_plugin =
     \<lparr>settings = sample_settings,
      getFileCache =
        (\<lambda>f. if path f = ''Biology/Cells.md'' then Some [''#Bio/Cells'', ''#exam''] else None)\<rparr>"

definition sample_getDefaultDeckForFolder :: "string \<Rightarrow> (string \<times> string) list \<Rightarrow> string option" where
  "sample_getDefaultDeckForFolder folder maps = map_of maps folder"


definition sample_plugin_with ::
  "bool option \<Rightarrow> (string \<times> string) list
    \<Rightarrow> ((string \<times> string) list, string, string list) AnkiBridgePlugin" where
  "sample_plugin_with inherit maps =
     sample_plugin\<lparr>settings := sample_settings\<lparr>inheritDeck := inherit, defaultDeckMaps := maps\<rparr>\<rparr>"

definition sample_note_with_deck :: "string option \<Rightarrow> (unit, string, unit) NoteBase" where
  "sample_note_with_deck d = sample_note\<lparr>config := sample_config\<lparr>deck := d\<rparr>\<rparr>"


text \<open>
  A loader that knows the empty document and one configuration block, and a parser result
  for a note with a given configuration text.
\<close>

definition sample_load :: "string \<Rightarrow> error + yaml" where
  "sample_load s =
     (if s = [] then Inr YUndefined
      else if s = ''deck: Anatomy'' then Inr (YMap [(''deck'', YString ''Anatomy'')])
      else Inl YAMLException)"

definition sample_result :: "string option \<Rightarrow> ParseNoteResult" where
  "sample_result cfg =
     \<lparr>type_r = ''basic'', config_r = cfg, front_r = Some ''What is a cell?'', back_r = None,
      location =
        \<lparr>start_l = \<lparr>offset = 0, line = 1, column = 0\<rparr>,
         end_l = \<lparr>offset = 15, line = 1, column = 15\<rparr>,
         source_l = None\<rparr>\<rparr>"

section \<open>Enablement and the rewrite trigger\<close>

lemma getEnabled_iff:
  "getEnabled n \<longleftrightarrow> enabled (config n) = None \<or> enabled (config n) = Some True"
  by (cases "enabled (config n)") (simp_all add: getEnabled_def)

text \<open>
  C1. \<^verbatim>\<open>shouldUpdateFile()\<close> is true exactly when the note is enabled (\<^verbatim>\<open>config.enabled\<close> unset
  or true) and the rendered text differs from \<^verbatim>\<open>sourceText\<close>. So a note with
  \<^verbatim>\<open>config.enabled === false\<close> never reports true, and neither does a note whose source text
  is its rendered text.
\<close>

theorem shouldUpdateFile_iff:
  "(shouldUpdateFile r n \<longleftrightarrow>
      (enabled (config n) = None \<or> enabled (config n) = Some True)
      \<and> renderAsText r n \<noteq> sourceText n)
   \<and> (enabled (config n) = Some False \<longrightarrow> \<not> shouldUpdateFile r n)
   \<and> (sourceText n = renderAsText r n \<longrightarrow> \<not> shouldUpdateFile r n)"
  by (auto simp: shouldUpdateFile_def getEnabled_iff)

theorem shouldUpdateFile_iff_witness:
  "enabled (config (sample_note\<lparr>config := sample_config\<lparr>enabled := Some False\<rparr>\<rparr>)) = Some False
   \<and> \<not> shouldUpdateFile sample_render (sample_note\<lparr>config := sample_config\<lparr>enabled := Some False\<rparr>\<rparr>)
   \<and> sourceText (sample_note\<lparr>sourceText := sample_render () sample_note\<rparr>)
       = renderAsText sample_render (sample_note\<lparr>sourceText := sample_render () sample_note\<rparr>)
   \<and> \<not> shouldUpdateFile sample_render (sample_note\<lparr>sourceText := sample_render () sample_note\<rparr>)
   \<and> shouldUpdateFile sample_render sample_note"
proof -
  let ?off = "sample_note\<lparr>config := sample_config\<lparr>enabled := Some False\<rparr>\<rparr>"
  let ?same = "sample_note\<lparr>sourceText := sample_render () sample_note\<rparr>"
  have off: "enabled (config ?off) = Some False"
    by simp
  have same: "sourceText ?same = renderAsText sample_render ?same"
    by (simp add: renderAsText_def sample_render_def sample_note_def new_NoteBase_def)
  have changed: "(enabled (config sample_note) = None \<or> enabled (config sample_note) = Some True)
      \<and> renderAsText sample_render sample_note \<noteq> sourceText sample_note"
    by (simp add: renderAsText_def sample_render_def sample_note_def new_NoteBase_def
        sample_config_def sample_fields_def or_empty_def)
  from shouldUpdateFile_iff [of sample_render ?off] off
  have 1: "\<not> shouldUpdateFile sample_render ?off"
    by blast
  from shouldUpdateFile_iff [of sample_render ?same] same
  have 2: "\<not> shouldUpdateFile sample_render ?same"
    by blast
  from shouldUpdateFile_iff [of sample_render sample_note] changed
  have 3: "shouldUpdateFile sample_render sample_note"
    by blast
  from off same 1 2 3 show ?thesis
    by blast
qed

section \<open>The model name\<close>

text \<open>
  C10. \<^verbatim>\<open>getModelName()\<close> is \<^verbatim>\<open>'Cloze'\<close> exactly when the note's \<^verbatim>\<open>isCloze\<close> flag is true and
  \<^verbatim>\<open>'Basic'\<close> otherwise. The flag is the one given to the constructor (false when none is
  given), and the configuration is not read: replacing it, whatever its \<^verbatim>\<open>cloze\<close> entry,
  leaves the model name as it is.
\<close>

theorem getModelName_isCloze:
  "(getModelName n = ''Cloze'' \<longleftrightarrow> isCloze n)
   \<and> (getModelName n = ''Basic'' \<longleftrightarrow> \<not> isCloze n)
   \<and> getModelName (n\<lparr>config := c\<rparr>) = getModelName n
   \<and> getModelName (new_NoteBase bp i fs src txt opts)
       = (if isCloze_o opts = Some True then ''Cloze'' else ''Basic'')"
  by (cases "isCloze_o opts") (auto simp: getModelName_def new_NoteBase_def)

theorem getModelName_isCloze_witness:
  "getModelName (sample_note\<lparr>config := sample_config\<lparr>cloze := Some True\<rparr>\<rparr>) = ''Basic''
   \<and> getModelName (sample_note\<lparr>isCloze := True, config := sample_config\<lparr>cloze := Some False\<rparr>\<rparr>)
       = ''Cloze''"
proof -
  let ?opts = "\<lparr>config_o = sample_config, medias_o = None :: unit list option, isCloze_o = None\<rparr>"
  let ?basic = "sample_note\<lparr>config := sample_config\<lparr>cloze := Some True\<rparr>\<rparr>"
  let ?cloze = "sample_note\<lparr>isCloze := True, config := sample_config\<lparr>cloze := Some False\<rparr>\<rparr>"
  have b: "\<not> isCloze ?basic"
    by (simp add: sample_note_def new_NoteBase_def)
  have c: "isCloze ?cloze"
    by simp
  from b getModelName_isCloze
    [of ?basic sample_config "()" None sample_fields sample_source "[]" ?opts]
  have 1: "getModelName ?basic = ''Basic''"
    by simp
  from c getModelName_isCloze
    [of ?cloze sample_config "()" None sample_fields sample_source "[]" ?opts]
  have 2: "getModelName ?cloze = ''Cloze''"
    by simp
  from 1 2 show ?thesis
    by simp
qed

section \<open>Field mapping between the local and the remote model\<close>

lemma or_empty_eq: "or_empty s = (case s of None \<Rightarrow> [] | Some t \<Rightarrow> t)"
  by (simp add: or_empty_def split: option.split)

text \<open>
  C7. \<^verbatim>\<open>fieldsToAnkiFields\<close> returns a dictionary with exactly the two keys of the target
  model, \<^verbatim>\<open>Text\<close> and \<^verbatim>\<open>Back Extra\<close> for a cloze note, \<^verbatim>\<open>Front\<close> and \<^verbatim>\<open>Back\<close> otherwise. Each key
  holds the text of its slot, and the empty string when the slot is unset, so neither key
  is ever missing.
\<close>

theorem fieldsToAnkiFields_keys:
  "dom (fieldsToAnkiFields n fs)
     = (if isCloze n then {''Text'', ''Back Extra''} else {''Front'', ''Back''})
   \<and> fieldsToAnkiFields n fs (if isCloze n then ''Text'' else ''Front'')
     = Some (case fs Frontlike of None \<Rightarrow> [] | Some t \<Rightarrow> t)
   \<and> fieldsToAnkiFields n fs (if isCloze n then ''Back Extra'' else ''Back'')
     = Some (case fs Backlike of None \<Rightarrow> [] | Some t \<Rightarrow> t)"
  by (auto simp: fieldsToAnkiFields_def or_empty_eq)

theorem fieldsToAnkiFields_keys_witness:
  "dom (fieldsToAnkiFields sample_note sample_fields) = {''Front'', ''Back''}
   \<and> fieldsToAnkiFields sample_note sample_fields ''Front'' = Some ''What is a cell?''
   \<and> fieldsToAnkiFields sample_note sample_fields ''Back'' = Some []
   \<and> dom (fieldsToAnkiFields (sample_note\<lparr>isCloze := True\<rparr>) (\<lambda>k. None))
       = {''Text'', ''Back Extra''}
   \<and> fieldsToAnkiFields (sample_note\<lparr>isCloze := True\<rparr>) (\<lambda>k. None) ''Text'' = Some []
   \<and> fieldsToAnkiFields (sample_note\<lparr>isCloze := True\<rparr>) (\<lambda>k. None) ''Back Extra'' = Some []"
proof -
  have b: "\<not> isCloze sample_note"
    by (simp add: sample_note_def new_NoteBase_def)
  have c: "isCloze (sample_note\<lparr>isCloze := True\<rparr>)"
    by simp
  from fieldsToAnkiFields_keys [of sample_note sample_fields] b
  have 1: "dom (fieldsToAnkiFields sample_note sample_fields) = {''Front'', ''Back''}
      \<and> fieldsToAnkiFields sample_note sample_fields ''Front'' = Some ''What is a cell?''
      \<and> fieldsToAnkiFields sample_note sample_fields ''Back'' = Some []"
    by (simp add: sample_fields_def)
  from fieldsToAnkiFields_keys [of "sample_note\<lparr>isCloze := True\<rparr>" "\<lambda>k. None"] c
  have 2: "dom (fieldsToAnkiFields (sample_note\<lparr>isCloze := True\<rparr>) (\<lambda>k. None))
        = {''Text'', ''Back Extra''}
      \<and> fieldsToAnkiFields (sample_note\<lparr>isCloze := True\<rparr>) (\<lambda>k. None) ''Text'' = Some []
      \<and> fieldsToAnkiFields (sample_note\<lparr>isCloze := True\<rparr>) (\<lambda>k. None) ''Back Extra'' = Some []"
    by simp
  from 1 2 show ?thesis
    by (elim conjE, intro conjI) assumption+
qed

lemma normaliseNoteInfoFields_Inr:
  "fields_r noteInfo (if modelName noteInfo = ''Cloze'' then ''Text'' else ''Front'') = Some f \<Longrightarrow>
   fields_r noteInfo (if modelName noteInfo = ''Cloze'' then ''Back Extra'' else ''Back'') = Some b \<Longrightarrow>
   normaliseNoteInfoFields n noteInfo
     = Inr (\<lambda>k. case k of Frontlike \<Rightarrow> Some (value_f f) | Backlike \<Rightarrow> Some (value_f b))"
  by (simp add: normaliseNoteInfoFields_def Let_def)

lemma two_keys_obtain:
  assumes "dom m = {a, b}"
  obtains x y where "m a = Some x" and "m b = Some y"
proof -
  from assms have "a \<in> dom m" and "b \<in> dom m"
    by simp_all
  then show thesis
    using that by blast
qed

lemma two_keys_values:
  assumes "dom m = {a, b}" and "m a = Some x" and "m b = Some y"
  shows "map_option g \<circ> m = [a \<mapsto> g x, b \<mapsto> g y]"
proof
  fix k
  show "(map_option g \<circ> m) k = [a \<mapsto> g x, b \<mapsto> g y] k"
  proof (cases "k = a \<or> k = b")
    case True
    with assms show ?thesis by auto
  next
    case False
    with assms(1) have "k \<notin> dom m" by simp
    then have "m k = None" by (simp add: domIff)
    with False show ?thesis by simp
  qed
qed

text \<open>
  C2, as the code has it. \<^verbatim>\<open>fieldsToAnkiFields\<close> chooses the field names by the note's own
  \<^verbatim>\<open>isCloze\<close> flag, \<^verbatim>\<open>normaliseNoteInfoFields\<close> by the record's model name. For a remote record
  \<open>R\<close> whose model is Basic or Cloze and whose fields are the expected names of that model,
  mapping \<open>R\<close> into the two local slots and back gives \<open>R\<close>'s dictionary from field name to
  text, provided the note's \<^verbatim>\<open>isCloze\<close> flag agrees with \<open>R\<close>'s model.
\<close>

theorem roundtrip_fields:
  assumes model: "modelName R = ''Basic'' \<or> modelName R = ''Cloze''"
    and names: "dom (fields_r R) = expectedFieldNames R"
    and agree: "isCloze n \<longleftrightarrow> modelName R = ''Cloze''"
  shows "map_sum id (fieldsToAnkiFields n) (normaliseNoteInfoFields n R) = Inr (noteInfoValues R)"
proof (cases "modelName R = ''Cloze''")
  case True
  with names have d: "dom (fields_r R) = {''Text'', ''Back Extra''}"
    by (simp add: expectedFieldNames_def)
  from d obtain f b where f: "fields_r R ''Text'' = Some f" and b: "fields_r R ''Back Extra'' = Some b"
    by (rule two_keys_obtain)
  from f b True have "normaliseNoteInfoFields n R
      = Inr (\<lambda>k. case k of Frontlike \<Rightarrow> Some (value_f f) | Backlike \<Rightarrow> Some (value_f b))"
    by (simp add: normaliseNoteInfoFields_Inr)
  moreover from agree True have "fieldsToAnkiFields n
      (\<lambda>k. case k of Frontlike \<Rightarrow> Some (value_f f) | Backlike \<Rightarrow> Some (value_f b))
      = [''Text'' \<mapsto> value_f f, ''Back Extra'' \<mapsto> value_f b]"
    by (simp add: fieldsToAnkiFields_def or_empty_eq)
  moreover have "noteInfoValues R = [''Text'' \<mapsto> value_f f, ''Back Extra'' \<mapsto> value_f b]"
    unfolding noteInfoValues_def using d f b by (rule two_keys_values)
  ultimately show ?thesis
    by simp
next
  case False
  with names have d: "dom (fields_r R) = {''Front'', ''Back''}"
    by (simp add: expectedFieldNames_def)
  from d obtain f b where f: "fields_r R ''Front'' = Some f" and b: "fields_r R ''Back'' = Some b"
    by (rule two_keys_obtain)
  from f b False have "normaliseNoteInfoFields n R
      = Inr (\<lambda>k. case k of Frontlike \<Rightarrow> Some (value_f f) | Backlike \<Rightarrow> Some (value_f b))"
    by (simp add: normaliseNoteInfoFields_Inr)
  moreover from agree False have "fieldsToAnkiFields n
      (\<lambda>k. case k of Frontlike \<Rightarrow> Some (value_f f) | Backlike \<Rightarrow> Some (value_f b))
      = [''Front'' \<mapsto> value_f f, ''Back'' \<mapsto> value_f b]"
    by (simp add: fieldsToAnkiFields_def or_empty_eq)
  moreover have "noteInfoValues R = [''Front'' \<mapsto> value_f f, ''Back'' \<mapsto> value_f b]"
    unfolding noteInfoValues_def using d f b by (rule two_keys_values)
  ultimately show ?thesis
    by simp
qed

theorem roundtrip_fields_witness:
  "(modelName sample_cloze_info = ''Basic'' \<or> modelName sample_cloze_info = ''Cloze'')
   \<and> dom (fields_r sample_cloze_info) = expectedFieldNames sample_cloze_info
   \<and> (isCloze (sample_note\<lparr>isCloze := True\<rparr>) \<longleftrightarrow> modelName sample_cloze_info = ''Cloze'')
   \<and> map_sum id (fieldsToAnkiFields (sample_note\<lparr>isCloze := True\<rparr>))
        (normaliseNoteInfoFields (sample_note\<lparr>isCloze := True\<rparr>) sample_cloze_info)
       = Inr (noteInfoValues sample_cloze_info)
   \<and> (modelName sample_basic_info = ''Basic'' \<or> modelName sample_basic_info = ''Cloze'')
   \<and> dom (fields_r sample_basic_info) = expectedFieldNames sample_basic_info
   \<and> (isCloze sample_note \<longleftrightarrow> modelName sample_basic_info = ''Cloze'')
   \<and> map_sum id (fieldsToAnkiFields sample_note)
        (normaliseNoteInfoFields sample_note sample_basic_info)
       = Inr (noteInfoValues sample_basic_info)"
proof -
  have 1: "modelName sample_cloze_info = ''Basic'' \<or> modelName sample_cloze_info = ''Cloze''"
    by (simp add: sample_cloze_info_def)
  have 2: "dom (fields_r sample_cloze_info) = expectedFieldNames sample_cloze_info"
    by (simp add: sample_cloze_info_def expectedFieldNames_def insert_commute)
  have 3: "isCloze (sample_note\<lparr>isCloze := True\<rparr>) \<longleftrightarrow> modelName sample_cloze_info = ''Cloze''"
    by (simp add: sample_cloze_info_def)
  have 4: "modelName sample_basic_info = ''Basic'' \<or> modelName sample_basic_info = ''Cloze''"
    by (simp add: sample_basic_info_def)
  have 5: "dom (fields_r sample_basic_info) = expectedFieldNames sample_basic_info"
    by (simp add: sample_basic_info_def expectedFieldNames_def insert_commute)
  have 6: "isCloze sample_note \<longleftrightarrow> modelName sample_basic_info = ''Cloze''"
    by (simp add: sample_basic_info_def sample_note_def new_NoteBase_def)
  from 1 2 3 roundtrip_fields [OF 1 2 3] 4 5 6 roundtrip_fields [OF 4 5 6] show ?thesis
    by (intro conjI)
qed

text \<open>
  Without that agreement the round trip fails: a note that is not a cloze note maps the
  Cloze record with the fields \<^verbatim>\<open>Text\<close> and \<^verbatim>\<open>Back Extra\<close> to a dictionary with the keys
  \<^verbatim>\<open>Front\<close> and \<^verbatim>\<open>Back\<close>.
\<close>

theorem roundtrip_fields_counterexample:
  "modelName sample_cloze_info = ''Cloze''
   \<and> dom (fields_r sample_cloze_info) = expectedFieldNames sample_cloze_info
   \<and> normaliseNoteInfoFields sample_note sample_cloze_info = Inr sample_cloze_fields
   \<and> fieldsToAnkiFields sample_note sample_cloze_fields ''Text'' = None
   \<and> noteInfoValues sample_cloze_info ''Text'' = Some ''A {{c1::cell}} divides''
   \<and> map_sum id (fieldsToAnkiFields sample_note)
        (normaliseNoteInfoFields sample_note sample_cloze_info)
       \<noteq> Inr (noteInfoValues sample_cloze_info)"
proof -
  have 1: "modelName sample_cloze_info = ''Cloze''"
    by (simp add: sample_cloze_info_def)
  have 2: "dom (fields_r sample_cloze_info) = expectedFieldNames sample_cloze_info"
    by (simp add: sample_cloze_info_def expectedFieldNames_def insert_commute)
  have 3: "normaliseNoteInfoFields sample_note sample_cloze_info = Inr sample_cloze_fields"
    by (simp add: normaliseNoteInfoFields_def sample_cloze_info_def sample_cloze_fields_def
        fun_eq_iff split: NoteField.split)
  have 4: "fieldsToAnkiFields sample_note sample_cloze_fields ''Text'' = None"
    by (simp add: fieldsToAnkiFields_def sample_note_def new_NoteBase_def)
  have 5: "noteInfoValues sample_cloze_info ''Text'' = Some ''A {{c1::cell}} divides''"
    by (simp add: noteInfoValues_def sample_cloze_info_def)
  from 4 5 have "fieldsToAnkiFields sample_note sample_cloze_fields \<noteq> noteInfoValues sample_cloze_info"
    by (metis option.distinct(1))
  with 3 have 6: "map_sum id (fieldsToAnkiFields sample_note)
        (normaliseNoteInfoFields sample_note sample_cloze_info)
       \<noteq> Inr (noteInfoValues sample_cloze_info)"
    by simp
  from 1 2 3 4 5 6 show ?thesis
    by (intro conjI)
qed

text \<open>
  C9. When the fields of a remote record lack one of the names expected for its model
  (\<^verbatim>\<open>Text\<close> and \<^verbatim>\<open>Back Extra\<close> for the model \<^verbatim>\<open>Cloze\<close>, \<^verbatim>\<open>Front\<close> and \<^verbatim>\<open>Back\<close> for any other),
  \<^verbatim>\<open>normaliseNoteInfoFields\<close> fails with a \<^verbatim>\<open>TypeError\<close>, raised by reading \<^verbatim>\<open>value\<close> of the
  missing entry; it returns no fields.
\<close>

theorem normaliseNoteInfoFields_shape_mismatch:
  "\<not> expectedFieldNames noteInfo \<subseteq> dom (fields_r noteInfo) \<Longrightarrow>
   normaliseNoteInfoFields n noteInfo = Inl TypeError"
  by (auto simp: normaliseNoteInfoFields_def expectedFieldNames_def Let_def
      split: option.splits if_splits)

theorem normaliseNoteInfoFields_shape_mismatch_witness:
  "\<not> expectedFieldNames sample_frontless_info \<subseteq> dom (fields_r sample_frontless_info)
   \<and> normaliseNoteInfoFields sample_note sample_frontless_info = Inl TypeError"
proof -
  have h: "\<not> expectedFieldNames sample_frontless_info \<subseteq> dom (fields_r sample_frontless_info)"
    by (simp add: expectedFieldNames_def sample_frontless_info_def)
  from h normaliseNoteInfoFields_shape_mismatch [OF h, of sample_note] show ?thesis
    by simp
qed

section \<open>Deck resolution\<close>

lemma split_js_not_Nil: "split_js c s \<noteq> []"
  by (induction s) (auto split: list.split)

lemma join_js_Cons_head: "join_js sep ((x # w) # ws) = x # join_js sep (w # ws)"
  by (cases ws) simp_all

lemma join_js_Nil_head: "ws \<noteq> [] \<Longrightarrow> join_js sep ([] # ws) = sep @ join_js sep ws"
  by (cases ws) simp_all

lemma join_split_replace_all: "join_js sep (split_js c s) = replace_all c sep s"
proof (induction s)
  case Nil
  show ?case by simp
next
  case (Cons x xs)
  obtain w ws where ws: "split_js c xs = w # ws"
    using split_js_not_Nil [of c xs] by (cases "split_js c xs") auto
  show ?case
  proof (cases "x = c")
    case True
    with Cons ws show ?thesis
      by (simp add: join_js_Nil_head)
  next
    case False
    with Cons ws show ?thesis
      by (simp add: join_js_Cons_head)
  qed
qed

text \<open>
  C3. With \<^verbatim>\<open>inheritDeck\<close> explicitly true, \<^verbatim>\<open>getDeckName\<close> returns the fallback deck, then
  \<^verbatim>\<open>::\<close>, then the file's full path with every \<^verbatim>\<open>/\<close> replaced by \<^verbatim>\<open>::\<close>. The note's
  configuration, the default-deck mappings and the folder lookup have no influence on the
  result. The path \<^verbatim>\<open>Biology/Cells.md\<close> under the fallback deck \<^verbatim>\<open>MyDeck\<close> gives
  \<^verbatim>\<open>MyDeck::Biology::Cells.md\<close>.
\<close>

theorem getDeckName_inheritDeck_true:
  "inheritDeck (settings plugin) = Some True \<Longrightarrow>
     getDeckName g n plugin
       = fallbackDeck (settings plugin) @ ''::''
           @ replace_all CHR ''/'' ''::'' (path (file_s (source n)))
     \<and> getDeckName g' (n\<lparr>config := c\<rparr>)
           (plugin\<lparr>settings := (settings plugin)\<lparr>defaultDeckMaps := m\<rparr>\<rparr>)
         = getDeckName g n plugin"
  by (simp add: getDeckName_def join_split_replace_all)

theorem getDeckName_inheritDeck_true_witness:
  "inheritDeck (settings sample_plugin) = Some True
   \<and> path (file_s (source sample_note)) = ''Biology/Cells.md''
   \<and> fallbackDeck (settings sample_plugin) = ''MyDeck''
   \<and> getDeckName sample_getDefaultDeckForFolder sample_note sample_plugin
       = ''MyDeck::Biology::Cells.md''
   \<and> getDeckName sample_getDefaultDeckForFolder
         (sample_note\<lparr>config := sample_config\<lparr>deck := Some ''Anatomy''\<rparr>\<rparr>) sample_plugin
       = ''MyDeck::Biology::Cells.md''"
proof -
  have h: "inheritDeck (settings sample_plugin) = Some True"
    by (simp add: sample_plugin_def sample_settings_def)
  have p: "path (file_s (source sample_note)) = ''Biology/Cells.md''"
    by (simp add: sample_note_def new_NoteBase_def sample_source_def)
  have f: "fallbackDeck (settings sample_plugin) = ''MyDeck''"
    by (simp add: sample_plugin_def sample_settings_def)
  have s: "(settings sample_plugin)\<lparr>defaultDeckMaps := [(''Biology'', ''Science'')]\<rparr> = settings sample_plugin"
    by (simp add: sample_plugin_def sample_settings_def)
  note t = getDeckName_inheritDeck_true [OF h, of sample_getDefaultDeckForFolder sample_note
      sample_getDefaultDeckForFolder "sample_config\<lparr>deck := Some ''Anatomy''\<rparr>"
      "[(''Biology'', ''Science'')]"]
  from t p f have 1: "getDeckName sample_getDefaultDeckForFolder sample_note sample_plugin
       = ''MyDeck::Biology::Cells.md''"
    by simp
  from t s 1 have 2: "getDeckName sample_getDefaultDeckForFolder
         (sample_note\<lparr>config := sample_config\<lparr>deck := Some ''Anatomy''\<rparr>\<rparr>) sample_plugin
       = ''MyDeck::Biology::Cells.md''"
    by simp
  from h p f 1 2 show ?thesis
    by (intro conjI)
qed

text \<open>
  C4. With \<^verbatim>\<open>inheritDeck\<close> not true: if it is explicitly false, \<^verbatim>\<open>getDeckName\<close> returns
  \<^verbatim>\<open>config.deck\<close> when that is set, and otherwise the deck the folder lookup finds for the
  note's parent folder when it finds one; when neither gives a deck, and when \<^verbatim>\<open>inheritDeck\<close>
  is unset, it returns \<^verbatim>\<open>fallbackDeck\<close> as it is. A deck is set, and a lookup has found one,
  when the string is present and not empty, which is what the code tests.
\<close>

theorem getDeckName_inheritDeck_not_true:
  "(inheritDeck (settings plugin) = Some False \<and> deck (config n) = Some d \<and> d \<noteq> []
      \<longrightarrow> getDeckName g n plugin = d)
   \<and> (inheritDeck (settings plugin) = Some False
       \<and> (deck (config n) = None \<or> deck (config n) = Some [])
       \<and> g (parent (file_s (source n))) (defaultDeckMaps (settings plugin)) = Some r \<and> r \<noteq> []
      \<longrightarrow> getDeckName g n plugin = r)
   \<and> (inheritDeck (settings plugin) = Some False
       \<and> (deck (config n) = None \<or> deck (config n) = Some [])
       \<and> (g (parent (file_s (source n))) (defaultDeckMaps (settings plugin)) = None
          \<or> g (parent (file_s (source n))) (defaultDeckMaps (settings plugin)) = Some [])
      \<longrightarrow> getDeckName g n plugin = fallbackDeck (settings plugin))
   \<and> (inheritDeck (settings plugin) = None
      \<longrightarrow> getDeckName g n plugin = fallbackDeck (settings plugin))"
  by (auto simp: getDeckName_def truthy_string_def)


theorem getDeckName_inheritDeck_not_true_witness:
  "getDeckName sample_getDefaultDeckForFolder (sample_note_with_deck (Some ''Anatomy''))
       (sample_plugin_with (Some False) [(''Biology'', ''Science'')]) = ''Anatomy''
   \<and> getDeckName sample_getDefaultDeckForFolder (sample_note_with_deck None)
       (sample_plugin_with (Some False) [(''Biology'', ''Science'')]) = ''Science''
   \<and> getDeckName sample_getDefaultDeckForFolder (sample_note_with_deck (Some []))
       (sample_plugin_with (Some False) [(''Physics'', ''Science'')]) = ''MyDeck''
   \<and> getDeckName sample_getDefaultDeckForFolder (sample_note_with_deck (Some ''Anatomy''))
       (sample_plugin_with None [(''Biology'', ''Science'')]) = ''MyDeck''"
proof -
  let ?g = sample_getDefaultDeckForFolder
  let ?maps = "[(''Biology'', ''Science'')]"
  let ?other = "[(''Physics'', ''Science'')]"
  have a: "inheritDeck (settings (sample_plugin_with (Some False) ?maps)) = Some False
      \<and> deck (config (sample_note_with_deck (Some ''Anatomy''))) = Some ''Anatomy''
      \<and> ''Anatomy'' \<noteq> []"
    by (simp add: sample_plugin_with_def sample_note_with_deck_def)
  have b: "inheritDeck (settings (sample_plugin_with (Some False) ?maps)) = Some False
      \<and> (deck (config (sample_note_with_deck None)) = None
          \<or> deck (config (sample_note_with_deck None)) = Some [])
      \<and> ?g (parent (file_s (source (sample_note_with_deck None))))
           (defaultDeckMaps (settings (sample_plugin_with (Some False) ?maps))) = Some ''Science''
      \<and> ''Science'' \<noteq> []"
    by (simp add: sample_plugin_with_def sample_note_with_deck_def sample_note_def
        new_NoteBase_def sample_source_def sample_getDefaultDeckForFolder_def)
  have c: "inheritDeck (settings (sample_plugin_with (Some False) ?other)) = Some False
      \<and> (deck (config (sample_note_with_deck (Some []))) = None
          \<or> deck (config (sample_note_with_deck (Some []))) = Some [])
      \<and> (?g (parent (file_s (source (sample_note_with_deck (Some [])))))
           (defaultDeckMaps (settings (sample_plugin_with (Some False) ?other))) = None
         \<or> ?g (parent (file_s (source (sample_note_with_deck (Some [])))))
           (defaultDeckMaps (settings (sample_plugin_with (Some False) ?other))) = Some [])"
    by (simp add: sample_plugin_with_def sample_note_with_deck_def sample_note_def
        new_NoteBase_def sample_source_def sample_getDefaultDeckForFolder_def)
  have d: "inheritDeck (settings (sample_plugin_with None ?maps)) = None"
    by (simp add: sample_plugin_with_def)
  have f: "fallbackDeck (settings (sample_plugin_with i m)) = ''MyDeck''" for i m
    by (simp add: sample_plugin_with_def sample_settings_def)
  from a getDeckName_inheritDeck_not_true
    [of "sample_plugin_with (Some False) ?maps" "sample_note_with_deck (Some ''Anatomy'')"
      "''Anatomy''" ?g "''Science''"]
  have 1: "getDeckName ?g (sample_note_with_deck (Some ''Anatomy''))
       (sample_plugin_with (Some False) ?maps) = ''Anatomy''"
    by simp
  from b getDeckName_inheritDeck_not_true
    [of "sample_plugin_with (Some False) ?maps" "sample_note_with_deck None"
      "''Anatomy''" ?g "''Science''"]
  have 2: "getDeckName ?g (sample_note_with_deck None)
       (sample_plugin_with (Some False) ?maps) = ''Science''"
    by simp
  from c f getDeckName_inheritDeck_not_true
    [of "sample_plugin_with (Some False) ?other" "sample_note_with_deck (Some [])"
      "''Anatomy''" ?g "''Science''"]
  have 3: "getDeckName ?g (sample_note_with_deck (Some []))
       (sample_plugin_with (Some False) ?other) = ''MyDeck''"
    by simp
  from d f getDeckName_inheritDeck_not_true
    [of "sample_plugin_with None ?maps" "sample_note_with_deck (Some ''Anatomy'')"
      "''Anatomy''" ?g "''Science''"]
  have 4: "getDeckName ?g (sample_note_with_deck (Some ''Anatomy''))
       (sample_plugin_with None ?maps) = ''MyDeck''"
    by simp
  from 1 2 3 4 show ?thesis
    by (intro conjI)
qed

section \<open>Tag resolution\<close>

lemma indexOf_notin: "x \<notin> set xs \<Longrightarrow> indexOf xs x = - 1"
  by (induction xs) (auto simp: Let_def)








lemma set_firstSeen_from: "set (firstSeen_from seen xs) = set xs - set seen"
  by (induction xs arbitrary: seen) auto

lemma distinct_firstSeen_from: "distinct (firstSeen_from seen xs)"
  by (induction xs arbitrary: seen) (auto simp: set_firstSeen_from)


lemma distinct_firstSeen: "distinct (firstSeen xs)"
  by (simp add: firstSeen_def distinct_firstSeen_from)
















section \<open>Parsing the configuration block\<close>

lemma validate_id_null:
  "ParseConfigSchema_validate (YMap [(''id'', YNull)])
     = Inr \<lparr>deck = None, tags = None, delete = None, enabled = None, cloze = None, id_p = None\<rparr>"
  by (simp add: ParseConfigSchema_validate_def property_def bind_result_def)

text \<open>
  C8. Parsing a parser result whose configuration text is null or empty succeeds, with the
  fully defaulted configuration: \<^verbatim>\<open>id\<close> is null and \<^verbatim>\<open>deck\<close>, \<^verbatim>\<open>tags\<close>, \<^verbatim>\<open>delete\<close>, \<^verbatim>\<open>enabled\<close> and
  \<^verbatim>\<open>cloze\<close> are unset. So the deck is not the empty string, and no flag is forced to false.
  The loader is any function that returns \<^verbatim>\<open>undefined\<close> for the empty document.
\<close>

theorem fromResult_empty_config:
  assumes empty_document: "load [] = Inr YUndefined"
    and no_config: "config_r result = None \<or> config_r result = Some []"
  shows "fromResult load result
     = Inr \<lparr>deck = None, tags = None, delete = None, enabled = None, cloze = None, id_p = None\<rparr>"
proof -
  from no_config have "or_empty (config_r result) = []"
    by (auto simp: or_empty_def)
  with empty_document show ?thesis
    by (simp add: fromResult_def bind_result_def validate_id_null)
qed

theorem fromResult_empty_config_witness:
  "sample_load [] = Inr YUndefined
   \<and> config_r (sample_result None) = None
   \<and> config_r (sample_result (Some [])) = Some []
   \<and> fromResult sample_load (sample_result None)
       = Inr \<lparr>deck = None, tags = None, delete = None, enabled = None, cloze = None, id_p = None\<rparr>
   \<and> fromResult sample_load (sample_result (Some []))
       = Inr \<lparr>deck = None, tags = None, delete = None, enabled = None, cloze = None, id_p = None\<rparr>"
proof -
  have l: "sample_load [] = Inr YUndefined"
    by (simp add: sample_load_def)
  have n: "config_r (sample_result None) = None"
    by (simp add: sample_result_def)
  have e: "config_r (sample_result (Some [])) = Some []"
    by (simp add: sample_result_def)
  from n have n': "config_r (sample_result None) = None \<or> config_r (sample_result None) = Some []"
    by simp
  from e have e': "config_r (sample_result (Some [])) = None
      \<or> config_r (sample_result (Some [])) = Some []"
    by simp
  note 1 = fromResult_empty_config [where load = sample_load and result = "sample_result None",
      OF l n']
  note 2 = fromResult_empty_config [where load = sample_load and result = "sample_result (Some [])",
      OF l e']
  from l n e 1 2 show ?thesis
    by (intro conjI)
qed

text \<open>
  Beyond the empty block: no successful parse yields the empty string as deck, and a block
  that names a deck yields that deck.
\<close>

lemma string_validator_not_empty:
  "yup_string_emptyAsUndefined_nullAsUndefined v = Inr d \<Longrightarrow> d \<noteq> Some []"
  by (cases v) (auto split: if_splits)

lemma validate_deck_not_empty:
  "ParseConfigSchema_validate v = Inr c \<Longrightarrow> deck c \<noteq> Some []"
  by (cases v)
    (auto simp: ParseConfigSchema_validate_def bind_result_def
      dest: string_validator_not_empty split: sum.splits)

lemma fromResult_deck_not_empty: "fromResult load result = Inr c \<Longrightarrow> deck c \<noteq> Some []"
  by (auto simp: fromResult_def bind_result_def Let_def
      dest: validate_deck_not_empty split: sum.splits if_splits)

lemma fromResult_sample_deck:
  "fromResult sample_load (sample_result (Some ''deck: Anatomy''))
     = Inr \<lparr>deck = Some ''Anatomy'', tags = None, delete = None, enabled = None,
            cloze = None, id_p = None\<rparr>"
  by (simp add: fromResult_def sample_load_def sample_result_def or_empty_def bind_result_def
      ParseConfigSchema_validate_def property_def)

end
